theory Spec2Isabelle
  imports Complex_Main
begin

section \<open>Scalars and fixed-size containers\<close>

text \<open>
  The header \<^verbatim>\<open>PositionMeasurementModel.hpp\<close> is a template over a numeric scalar type
  \<^verbatim>\<open>T\<close>; the two antenna offsets are \<^verbatim>\<open>double\<close>. Both are read here as the real
  numbers, with \<^verbatim>\<open>std::cos\<close> and \<^verbatim>\<open>std::sin\<close> as the real cosine and sine: every
  statement below is about exact arithmetic, and says nothing about the rounding of a
  machine \<^verbatim>\<open>double\<close>.

  \<^verbatim>\<open>Kalman::Vector<T, N>\<close> is a column of \<open>N\<close> coefficients, a matrix is a list of rows.
\<close>

type_synonym Vector = "real list"

type_synonym Matrix = "real list list"

text \<open>
  A fixed-size vector or matrix that is default-constructed has its size and no defined
  content. The content it happens to hold is a parameter \<open>junk\<close> of the model.
\<close>

definition Vector_uninit :: "nat \<Rightarrow> (nat \<Rightarrow> real) \<Rightarrow> Vector" where
  "Vector_uninit n junk = map junk [0..<n]"

definition Matrix_uninit :: "nat \<Rightarrow> nat \<Rightarrow> (nat \<Rightarrow> nat \<Rightarrow> real) \<Rightarrow> Matrix" where
  "Matrix_uninit r c junk = map (\<lambda>i. map (junk i) [0..<c]) [0..<r]"

text \<open>
  \<^verbatim>\<open>setIdentity()\<close> overwrites a matrix in place and keeps its shape: coefficient
  \<open>(i, j)\<close> becomes 1 on the main diagonal and 0 elsewhere, also when the matrix is not
  square.
\<close>

definition setIdentity :: "Matrix \<Rightarrow> Matrix" where
  "setIdentity M =
     map (\<lambda>i. map (\<lambda>j. if i = j then 1 else 0) [0..<length (M ! i)]) [0..<length M]"

definition has_shape :: "nat \<Rightarrow> nat \<Rightarrow> Matrix \<Rightarrow> bool" where
  "has_shape r c M = (length M = r \<and> list_all (\<lambda>row. length row = c) M)"

section \<open>The state\<close>

text \<open>
  Modelled from the spec: \<^verbatim>\<open>SystemModel.hpp\<close>, which declares \<^verbatim>\<open>State<T>\<close>, is not part
  of the sources at hand. The spec describes the state as the ordered triple
  (x, y, heading) with named accessors; the measurement model only reads the three
  accessors \<^verbatim>\<open>x_pos()\<close>, \<^verbatim>\<open>y_pos()\<close> and \<^verbatim>\<open>theta()\<close> of a state passed by const reference.
\<close>

record State =
  State_x_pos :: real
  State_y_pos :: real
  State_theta :: real

text \<open>
  Modelled from the spec: the number of coefficients of a state, which is the number of
  columns of \<open>H\<close>; the spec's state is a triple.
\<close>

definition State_size :: nat where
  "State_size = 3"

section \<open>PositionMeasurement\<close>

text \<open>
  \<^verbatim>\<open>class PositionMeasurement : public Kalman::Vector<T, 2>\<close> with the index constants
  \<^verbatim>\<open>X = 0\<close> and \<^verbatim>\<open>Y = 1\<close>, the read accessors \<^verbatim>\<open>x_pos() const\<close>, \<^verbatim>\<open>y_pos() const\<close> and
  the accessors returning a reference. An assignment through the returned reference is
  the update of that coefficient.
\<close>

type_synonym PositionMeasurement = Vector

definition PositionMeasurement_size :: nat where
  "PositionMeasurement_size = 2"

definition X :: nat where
  "X = 0"

definition Y :: nat where
  "Y = 1"

definition x_pos :: "PositionMeasurement \<Rightarrow> real" where
  "x_pos m = m ! X"

definition y_pos :: "PositionMeasurement \<Rightarrow> real" where
  "y_pos m = m ! Y"

definition x_pos_assign :: "PositionMeasurement \<Rightarrow> real \<Rightarrow> PositionMeasurement" where
  "x_pos_assign m v = m[X := v]"

definition y_pos_assign :: "PositionMeasurement \<Rightarrow> real \<Rightarrow> PositionMeasurement" where
  "y_pos_assign m v = m[Y := v]"

section \<open>PositionMeasurementModel\<close>

text \<open>
  The object holds the two Jacobians \<open>H\<close> (measurement by state, 2 by 3) and \<open>V\<close>
  (measurement by measurement, 2 by 2) of the linearized measurement model it derives
  from, and the two antenna offsets.
\<close>

record PositionMeasurementModel =
  H :: Matrix
  V :: Matrix
  antenna_distance_x :: real
  antenna_distance_y :: real

text \<open>
  Construction: the members get their default member initializers (the offsets \<open>-0.01\<close>
  and \<open>0.03\<close>), then the constructor body sets \<open>V\<close> to the identity. What \<open>H\<close> and \<open>V\<close>
  hold when the body starts is left open (\<open>junkH\<close>, \<open>junkV\<close>).
\<close>

definition PositionMeasurementModel_ctor ::
  "(nat \<Rightarrow> nat \<Rightarrow> real) \<Rightarrow> (nat \<Rightarrow> nat \<Rightarrow> real) \<Rightarrow> PositionMeasurementModel" where
  "PositionMeasurementModel_ctor junkH junkV =
     (let this = \<lparr> H = Matrix_uninit PositionMeasurement_size State_size junkH,
                    V = Matrix_uninit PositionMeasurement_size PositionMeasurement_size junkV,
                    antenna_distance_x = - 0.01,
                    antenna_distance_y = 0.03 \<rparr>
      in this\<lparr> V := setIdentity (V this) \<rparr>)"

text \<open>
  \<^verbatim>\<open>M h(const S& x) const\<close>: a local measurement is default-constructed, its two
  coefficients are assigned in turn, and it is returned.
\<close>

definition h :: "PositionMeasurementModel \<Rightarrow> (nat \<Rightarrow> real) \<Rightarrow> State \<Rightarrow> PositionMeasurement" where
  "h this junk x =
     (let measurement = Vector_uninit PositionMeasurement_size junk;
          measurement = x_pos_assign measurement
            (State_x_pos x + cos (State_theta x) * antenna_distance_x this
                           - sin (State_theta x) * antenna_distance_y this);
          measurement = y_pos_assign measurement
            (State_y_pos x + sin (State_theta x) * antenna_distance_x this
                           + cos (State_theta x) * antenna_distance_y this)
      in measurement)"

text \<open>\<^verbatim>\<open>void updateJacobians(const S& x)\<close>: the body is \<^verbatim>\<open>this->H.setIdentity()\<close>.\<close>

definition updateJacobians :: "PositionMeasurementModel \<Rightarrow> State \<Rightarrow> PositionMeasurementModel" where
  "updateJacobians this x = this\<lparr> H := setIdentity (H this) \<rparr>"

text \<open>
  The class invariant that the fixed-size matrix types express: \<open>H\<close> is 2 by 3 and \<open>V\<close> is
  2 by 2.
\<close>

definition wf_model :: "PositionMeasurementModel \<Rightarrow> bool" where
  "wf_model this =
     (has_shape PositionMeasurement_size State_size (H this) \<and>
      has_shape PositionMeasurement_size PositionMeasurement_size (V this))"

subsection \<open>Sequences of calls\<close>

text \<open>
  A call of one of the two member functions on a model, with its argument. A call of \<open>h\<close>
  returns a measurement and, being a const member function, the object as it was; a call
  of \<open>updateJacobians\<close> returns nothing and the updated object.
\<close>

datatype call = Call_h "nat \<Rightarrow> real" State | Call_updateJacobians State

datatype result = Measurement PositionMeasurement | Void

fun exec :: "PositionMeasurementModel \<Rightarrow> call \<Rightarrow> PositionMeasurementModel \<times> result" where
  "exec this (Call_h junk x) = (this, Measurement (h this junk x))"
| "exec this (Call_updateJacobians x) = (updateJacobians this x, Void)"

fun run :: "PositionMeasurementModel \<Rightarrow> call list \<Rightarrow> PositionMeasurementModel" where
  "run this [] = this"
| "run this (c # cs) = run (fst (exec this c)) cs"

subsection \<open>The analytic Jacobian\<close>

text \<open>
  The measurement Jacobian as the spec words it, for comparison with what
  \<open>updateJacobians\<close> stores: unit partials with respect to the two position components,
  and in the heading column \<open>- sin \<theta> * dx - cos \<theta> * dy\<close> and \<open>cos \<theta> * dx - sin \<theta> * dy\<close>.
\<close>

definition analytic_H :: "PositionMeasurementModel \<Rightarrow> State \<Rightarrow> Matrix" where
  "analytic_H this x =
     [[1, 0, - sin (State_theta x) * antenna_distance_x this
             - cos (State_theta x) * antenna_distance_y this],
      [0, 1, cos (State_theta x) * antenna_distance_x this
             - sin (State_theta x) * antenna_distance_y this]]"

section \<open>Basic facts\<close>

lemma upt_2: "[0..<2] = [0, Suc 0]"
  by (simp add: upt_rec)

lemma upt_3: "[0..<3] = [0, Suc 0, 2]"
  by (simp add: upt_rec)

lemma has_shape_2D:
  assumes "has_shape 2 c M"
  shows "length M = 2" and "length (M ! 0) = c" and "length (M ! Suc 0) = c"
proof -
  from assms show len: "length M = 2"
    by (simp add: has_shape_def)
  from assms have "\<forall>row \<in> set M. length row = c"
    by (simp add: has_shape_def list_all_iff)
  moreover have "M ! 0 \<in> set M" and "M ! Suc 0 \<in> set M"
    using len by simp_all
  ultimately show "length (M ! 0) = c" and "length (M ! Suc 0) = c"
    by blast+
qed

lemma setIdentity_2_3:
  assumes "has_shape PositionMeasurement_size State_size M"
  shows "setIdentity M = [[1, 0, 0], [0, 1, 0]]"
  using has_shape_2D [of 3 M] assms
  by (simp add: setIdentity_def PositionMeasurement_size_def State_size_def upt_2 upt_3)

lemma setIdentity_2_2:
  assumes "has_shape PositionMeasurement_size PositionMeasurement_size M"
  shows "setIdentity M = [[1, 0], [0, 1]]"
  using has_shape_2D [of 2 M] assms
  by (simp add: setIdentity_def PositionMeasurement_size_def upt_2)

lemma Matrix_uninit_shape: "has_shape r c (Matrix_uninit r c junk)"
  by (simp add: has_shape_def Matrix_uninit_def list_all_iff)

lemma setIdentity_shape: "has_shape r c M \<Longrightarrow> has_shape r c (setIdentity M)"
  by (auto simp add: has_shape_def setIdentity_def list_all_iff)

text \<open>The constructed object.\<close>

lemma ctor_wf: "wf_model (PositionMeasurementModel_ctor junkH junkV)"
  by (simp add: wf_model_def PositionMeasurementModel_ctor_def Let_def
      Matrix_uninit_shape setIdentity_shape)

lemma ctor_V: "V (PositionMeasurementModel_ctor junkH junkV) = [[1, 0], [0, 1]]"
  by (simp add: PositionMeasurementModel_ctor_def Let_def Matrix_uninit_shape setIdentity_2_2)

lemma ctor_offsets:
  "antenna_distance_x (PositionMeasurementModel_ctor junkH junkV) = - 0.01"
  "antenna_distance_y (PositionMeasurementModel_ctor junkH junkV) = 0.03"
  by (simp_all add: PositionMeasurementModel_ctor_def Let_def)

text \<open>One call of \<open>updateJacobians\<close>, and what a call and a sequence of calls preserve.\<close>

lemma updateJacobians_eq:
  "wf_model this \<Longrightarrow> updateJacobians this x = this\<lparr> H := [[1, 0, 0], [0, 1, 0]] \<rparr>"
  by (simp add: updateJacobians_def wf_model_def setIdentity_2_3)

lemma exec_frame:
  "V (fst (exec this c)) = V this"
  "antenna_distance_x (fst (exec this c)) = antenna_distance_x this"
  "antenna_distance_y (fst (exec this c)) = antenna_distance_y this"
  by (cases c; simp add: updateJacobians_def)+

lemma run_frame:
  "V (run this cs) = V this \<and>
   antenna_distance_x (run this cs) = antenna_distance_x this \<and>
   antenna_distance_y (run this cs) = antenna_distance_y this"
  by (induction cs arbitrary: this) (simp_all add: exec_frame)

lemma exec_wf: "wf_model this \<Longrightarrow> wf_model (fst (exec this c))"
  by (cases c) (simp_all add: updateJacobians_def wf_model_def setIdentity_shape)

lemma run_wf: "wf_model this \<Longrightarrow> wf_model (run this cs)"
  by (induction cs arbitrary: this) (simp_all add: exec_wf)


lemma Vector_uninit_2: "Vector_uninit PositionMeasurement_size junk = [junk 0, junk 1]"
  by (simp add: Vector_uninit_def PositionMeasurement_size_def upt_rec)

lemma h_eq:
  "h this junk x =
     [State_x_pos x + cos (State_theta x) * antenna_distance_x this
                    - sin (State_theta x) * antenna_distance_y this,
      State_y_pos x + sin (State_theta x) * antenna_distance_x this
                    + cos (State_theta x) * antenna_distance_y this]"
  by (simp add: h_def Vector_uninit_2 x_pos_assign_def y_pos_assign_def X_def Y_def)

section \<open>The measurement function\<close>

text \<open>
  C1. For every state and every pair of calibration offsets held by the model, \<open>h\<close>
  returns the rotated-offset formula: the x component of the result is
  \<open>x_pos + cos \<theta> * dx - sin \<theta> * dy\<close> and the y component is
  \<open>y_pos + sin \<theta> * dx + cos \<theta> * dy\<close>, whatever the uninitialised local measurement held.
\<close>

theorem h_rotated_offset:
  "x_pos (h this junk x) =
     State_x_pos x + cos (State_theta x) * antenna_distance_x this
                   - sin (State_theta x) * antenna_distance_y this \<and>
   y_pos (h this junk x) =
     State_y_pos x + sin (State_theta x) * antenna_distance_x this
                   + cos (State_theta x) * antenna_distance_y this \<and>
   length (h this junk x) = PositionMeasurement_size"
  by (simp add: h_eq x_pos_def y_pos_def X_def Y_def PositionMeasurement_size_def)

text \<open>
  C9. Each component of \<open>h\<close> depends only on the matching position component and the
  heading: two states that agree on \<open>x_pos\<close> and \<open>\<theta>\<close> give the same x component, two
  states that agree on \<open>y_pos\<close> and \<open>\<theta>\<close> give the same y component.
\<close>

theorem h_component_noninterference:
  "(State_x_pos x1 = State_x_pos x2 \<and> State_theta x1 = State_theta x2 \<longrightarrow>
      x_pos (h this junk1 x1) = x_pos (h this junk2 x2)) \<and>
   (State_y_pos x1 = State_y_pos x2 \<and> State_theta x1 = State_theta x2 \<longrightarrow>
      y_pos (h this junk1 x1) = y_pos (h this junk2 x2))"
  by (simp add: h_eq x_pos_def y_pos_def X_def Y_def)

theorem h_component_noninterference_witness:
  "State_x_pos \<lparr>State_x_pos = 1, State_y_pos = 2, State_theta = 0\<rparr> =
   State_x_pos \<lparr>State_x_pos = 1, State_y_pos = 7, State_theta = 0\<rparr> \<and>
   State_theta \<lparr>State_x_pos = 1, State_y_pos = 2, State_theta = 0\<rparr> =
   State_theta \<lparr>State_x_pos = 1, State_y_pos = 7, State_theta = 0\<rparr> \<and>
   State_y_pos \<lparr>State_x_pos = 1, State_y_pos = 2, State_theta = 0\<rparr> \<noteq>
   State_y_pos \<lparr>State_x_pos = 1, State_y_pos = 7, State_theta = 0\<rparr> \<and>
   x_pos (h (PositionMeasurementModel_ctor (\<lambda>i j. 0) (\<lambda>i j. 0)) (\<lambda>i. 0)
            \<lparr>State_x_pos = 1, State_y_pos = 2, State_theta = 0\<rparr>) =
   x_pos (h (PositionMeasurementModel_ctor (\<lambda>i j. 0) (\<lambda>i j. 0)) (\<lambda>i. 5)
            \<lparr>State_x_pos = 1, State_y_pos = 7, State_theta = 0\<rparr>) \<and>
   State_y_pos \<lparr>State_x_pos = 1, State_y_pos = 2, State_theta = 0\<rparr> =
   State_y_pos \<lparr>State_x_pos = 9, State_y_pos = 2, State_theta = 0\<rparr> \<and>
   State_x_pos \<lparr>State_x_pos = 1, State_y_pos = 2, State_theta = 0\<rparr> \<noteq>
   State_x_pos \<lparr>State_x_pos = 9, State_y_pos = 2, State_theta = 0\<rparr> \<and>
   y_pos (h (PositionMeasurementModel_ctor (\<lambda>i j. 0) (\<lambda>i j. 0)) (\<lambda>i. 0)
            \<lparr>State_x_pos = 1, State_y_pos = 2, State_theta = 0\<rparr>) =
   y_pos (h (PositionMeasurementModel_ctor (\<lambda>i j. 0) (\<lambda>i j. 0)) (\<lambda>i. 5)
            \<lparr>State_x_pos = 9, State_y_pos = 2, State_theta = 0\<rparr>)"
  using
    h_component_noninterference [of "\<lparr>State_x_pos = 1, State_y_pos = 2, State_theta = 0\<rparr>"
      "\<lparr>State_x_pos = 1, State_y_pos = 7, State_theta = 0\<rparr>"
      "PositionMeasurementModel_ctor (\<lambda>i j. 0) (\<lambda>i j. 0)" "\<lambda>i. 0" "\<lambda>i. 5"]
    h_component_noninterference [of "\<lparr>State_x_pos = 1, State_y_pos = 2, State_theta = 0\<rparr>"
      "\<lparr>State_x_pos = 9, State_y_pos = 2, State_theta = 0\<rparr>"
      "PositionMeasurementModel_ctor (\<lambda>i j. 0) (\<lambda>i j. 0)" "\<lambda>i. 0" "\<lambda>i. 5"]
  by simp

section \<open>The measurement Jacobian\<close>

text \<open>
  The entries of \<open>analytic_H\<close> are the partial derivatives of the two components of \<open>h\<close>
  in the three components of the state.
\<close>

lemma analytic_H_is_derivative:
  "((\<lambda>t. x_pos (h this junk (x\<lparr>State_x_pos := t\<rparr>)))
      has_real_derivative analytic_H this x ! 0 ! 0) (at (State_x_pos x))"
  "((\<lambda>t. x_pos (h this junk (x\<lparr>State_y_pos := t\<rparr>)))
      has_real_derivative analytic_H this x ! 0 ! 1) (at (State_y_pos x))"
  "((\<lambda>t. x_pos (h this junk (x\<lparr>State_theta := t\<rparr>)))
      has_real_derivative analytic_H this x ! 0 ! 2) (at (State_theta x))"
  "((\<lambda>t. y_pos (h this junk (x\<lparr>State_x_pos := t\<rparr>)))
      has_real_derivative analytic_H this x ! 1 ! 0) (at (State_x_pos x))"
  "((\<lambda>t. y_pos (h this junk (x\<lparr>State_y_pos := t\<rparr>)))
      has_real_derivative analytic_H this x ! 1 ! 1) (at (State_y_pos x))"
  "((\<lambda>t. y_pos (h this junk (x\<lparr>State_theta := t\<rparr>)))
      has_real_derivative analytic_H this x ! 1 ! 2) (at (State_theta x))"
  unfolding h_eq x_pos_def y_pos_def X_def Y_def analytic_H_def
  by (auto intro!: derivative_eq_intros)

text \<open>
  C2. The claim asks that after \<open>updateJacobians\<close> the matrix \<open>H\<close> holds the partial
  derivatives of \<open>h\<close>, the heading column included. On the constructed model and the
  state \<open>(0, 0, 0)\<close> the call leaves the heading column of \<open>H\<close> at 0, while the
  derivatives of the two components of \<open>h\<close> in the heading are \<open>-0.03\<close> and \<open>-0.01\<close>, the
  entries of the analytic Jacobian there.
\<close>

theorem updateJacobians_misses_heading_partials:
  "H (updateJacobians (PositionMeasurementModel_ctor (\<lambda>i j. 0) (\<lambda>i j. 0))
        \<lparr>State_x_pos = 0, State_y_pos = 0, State_theta = 0\<rparr>) = [[1, 0, 0], [0, 1, 0]] \<and>
   analytic_H (PositionMeasurementModel_ctor (\<lambda>i j. 0) (\<lambda>i j. 0))
        \<lparr>State_x_pos = 0, State_y_pos = 0, State_theta = 0\<rparr> = [[1, 0, - 0.03], [0, 1, - 0.01]] \<and>
   ((\<lambda>t. x_pos (h (PositionMeasurementModel_ctor (\<lambda>i j. 0) (\<lambda>i j. 0)) (\<lambda>i. 0)
        \<lparr>State_x_pos = 0, State_y_pos = 0, State_theta = t\<rparr>)) has_real_derivative - 0.03) (at 0) \<and>
   ((\<lambda>t. y_pos (h (PositionMeasurementModel_ctor (\<lambda>i j. 0) (\<lambda>i j. 0)) (\<lambda>i. 0)
        \<lparr>State_x_pos = 0, State_y_pos = 0, State_theta = t\<rparr>)) has_real_derivative - 0.01) (at 0)"
proof -
  let ?m = "PositionMeasurementModel_ctor (\<lambda>i j. 0) (\<lambda>i j. 0)"
  let ?x = "\<lparr>State_x_pos = 0, State_y_pos = 0, State_theta = 0\<rparr>"
  have a: "analytic_H ?m ?x = [[1, 0, - 0.03], [0, 1, - 0.01]]"
    by (simp add: analytic_H_def ctor_offsets)
  have b: "H (updateJacobians ?m ?x) = [[1, 0, 0], [0, 1, 0]]"
    by (simp add: updateJacobians_eq ctor_wf)
  from analytic_H_is_derivative(3) [of ?m "\<lambda>i. 0" ?x]
    analytic_H_is_derivative(6) [of ?m "\<lambda>i. 0" ?x]
  show ?thesis
    unfolding a b by simp
qed

text \<open>
  C3. For every state, \<open>updateJacobians\<close> sets \<open>H\<close> to the identity (ones on the main
  diagonal of the 2 by 3 matrix, zeros elsewhere), and the resulting \<open>H\<close> is the same
  whatever state is passed.
\<close>

theorem updateJacobians_sets_identity:
  assumes "wf_model this"
  shows "H (updateJacobians this x) = [[1, 0, 0], [0, 1, 0]] \<and>
         H (updateJacobians this x) = H (updateJacobians this x')"
  using assms by (simp add: updateJacobians_eq)

theorem updateJacobians_sets_identity_witness:
  "wf_model (PositionMeasurementModel_ctor (\<lambda>i j. 7) (\<lambda>i j. 7)) \<and>
   H (updateJacobians (PositionMeasurementModel_ctor (\<lambda>i j. 7) (\<lambda>i j. 7))
        \<lparr>State_x_pos = 1, State_y_pos = 2, State_theta = 0\<rparr>) = [[1, 0, 0], [0, 1, 0]] \<and>
   H (updateJacobians (PositionMeasurementModel_ctor (\<lambda>i j. 7) (\<lambda>i j. 7))
        \<lparr>State_x_pos = 1, State_y_pos = 2, State_theta = 0\<rparr>) =
   H (updateJacobians (PositionMeasurementModel_ctor (\<lambda>i j. 7) (\<lambda>i j. 7))
        \<lparr>State_x_pos = 4, State_y_pos = 5, State_theta = pi\<rparr>)"
  using updateJacobians_sets_identity [OF ctor_wf, of "\<lambda>i j. 7" "\<lambda>i j. 7"
      "\<lparr>State_x_pos = 1, State_y_pos = 2, State_theta = 0\<rparr>"
      "\<lparr>State_x_pos = 4, State_y_pos = 5, State_theta = pi\<rparr>"]
    ctor_wf [of "\<lambda>i j. 7" "\<lambda>i j. 7"]
  by auto

section \<open>What the calls leave unchanged\<close>

text \<open>
  C5. The constructor sets the noise Jacobian \<open>V\<close> to the 2 by 2 identity, and after any
  sequence of calls of \<open>h\<close> and \<open>updateJacobians\<close>, on any states, \<open>V\<close> is still the
  identity.
\<close>

theorem V_identity_invariant:
  "V (PositionMeasurementModel_ctor junkH junkV) = [[1, 0], [0, 1]] \<and>
   V (run (PositionMeasurementModel_ctor junkH junkV) cs) = [[1, 0], [0, 1]]"
  by (simp add: run_frame ctor_V)

text \<open>
  C6. The antenna offsets are unchanged by every sequence of calls of \<open>h\<close> and
  \<open>updateJacobians\<close>; on a constructed model they stay at their constructed values
  \<open>-0.01\<close> and \<open>0.03\<close>.
\<close>

theorem antenna_distance_unchanged:
  "antenna_distance_x (run this cs) = antenna_distance_x this \<and>
   antenna_distance_y (run this cs) = antenna_distance_y this \<and>
   antenna_distance_x (run (PositionMeasurementModel_ctor junkH junkV) cs) = - 0.01 \<and>
   antenna_distance_y (run (PositionMeasurementModel_ctor junkH junkV) cs) = 0.03"
  by (simp add: run_frame ctor_offsets)

text \<open>
  C7. \<open>h\<close> and \<open>updateJacobians\<close> are functions of the state and the calibration: on two
  models with equal offsets and the same state, \<open>h\<close> returns equal measurements (whatever
  the two Jacobians and the uninitialised local hold) and \<open>updateJacobians\<close> leaves equal
  \<open>H\<close>. A call of \<open>h\<close> leaves the object as it was, and a call of \<open>updateJacobians\<close>
  changes no field but \<open>H\<close>. The state is passed by const reference: it is an argument
  of the two functions and not among what they return.
\<close>

theorem h_updateJacobians_pure:
  assumes "antenna_distance_x m1 = antenna_distance_x m2"
    and "antenna_distance_y m1 = antenna_distance_y m2"
    and "wf_model m1" and "wf_model m2"
  shows "h m1 junk1 x = h m2 junk2 x \<and>
         H (updateJacobians m1 x) = H (updateJacobians m2 x) \<and>
         exec m1 (Call_h junk1 x) = (m1, Measurement (h m1 junk1 x)) \<and>
         exec m1 (Call_updateJacobians x) = (m1\<lparr> H := H (updateJacobians m1 x) \<rparr>, Void)"
  using assms by (simp add: h_eq updateJacobians_eq)

theorem h_updateJacobians_pure_witness:
  "antenna_distance_x (PositionMeasurementModel_ctor (\<lambda>i j. 0) (\<lambda>i j. 0)) =
   antenna_distance_x (PositionMeasurementModel_ctor (\<lambda>i j. 7) (\<lambda>i j. 8)) \<and>
   antenna_distance_y (PositionMeasurementModel_ctor (\<lambda>i j. 0) (\<lambda>i j. 0)) =
   antenna_distance_y (PositionMeasurementModel_ctor (\<lambda>i j. 7) (\<lambda>i j. 8)) \<and>
   wf_model (PositionMeasurementModel_ctor (\<lambda>i j. 0) (\<lambda>i j. 0)) \<and>
   wf_model (PositionMeasurementModel_ctor (\<lambda>i j. 7) (\<lambda>i j. 8)) \<and>
   h (PositionMeasurementModel_ctor (\<lambda>i j. 0) (\<lambda>i j. 0)) (\<lambda>i. 0)
     \<lparr>State_x_pos = 1, State_y_pos = 2, State_theta = 0\<rparr> =
   h (PositionMeasurementModel_ctor (\<lambda>i j. 7) (\<lambda>i j. 8)) (\<lambda>i. 5)
     \<lparr>State_x_pos = 1, State_y_pos = 2, State_theta = 0\<rparr> \<and>
   H (updateJacobians (PositionMeasurementModel_ctor (\<lambda>i j. 0) (\<lambda>i j. 0))
     \<lparr>State_x_pos = 1, State_y_pos = 2, State_theta = 0\<rparr>) =
   H (updateJacobians (PositionMeasurementModel_ctor (\<lambda>i j. 7) (\<lambda>i j. 8))
     \<lparr>State_x_pos = 1, State_y_pos = 2, State_theta = 0\<rparr>)"
  using h_updateJacobians_pure [of "PositionMeasurementModel_ctor (\<lambda>i j. 0) (\<lambda>i j. 0)"
      "PositionMeasurementModel_ctor (\<lambda>i j. 7) (\<lambda>i j. 8)" "\<lambda>i. 0" _ "\<lambda>i. 5"]
  by (simp add: ctor_offsets ctor_wf)

section \<open>The accessors of a measurement\<close>

text \<open>
  C8. For every measurement (a vector of two coefficients) and every scalar \<open>v\<close>: after
  assigning \<open>v\<close> through \<open>x_pos()\<close>, reading \<open>x_pos()\<close> gives \<open>v\<close> and \<open>y_pos()\<close> is
  unchanged, and the same with the two accessors exchanged; \<open>x_pos\<close> and \<open>y_pos\<close> address
  the coefficients 0 and 1, both within the vector.
\<close>

theorem PositionMeasurement_accessors:
  assumes "length m = PositionMeasurement_size"
  shows "x_pos (x_pos_assign m v) = v \<and> y_pos (x_pos_assign m v) = y_pos m \<and>
         y_pos (y_pos_assign m v) = v \<and> x_pos (y_pos_assign m v) = x_pos m \<and>
         length (x_pos_assign m v) = PositionMeasurement_size \<and>
         length (y_pos_assign m v) = PositionMeasurement_size \<and>
         x_pos m = m ! 0 \<and> y_pos m = m ! 1 \<and> X = 0 \<and> Y = 1 \<and>
         X < PositionMeasurement_size \<and> Y < PositionMeasurement_size"
  using assms
  by (simp add: x_pos_def y_pos_def x_pos_assign_def y_pos_assign_def X_def Y_def
      PositionMeasurement_size_def)

theorem PositionMeasurement_accessors_witness:
  "length [3, 4 :: real] = PositionMeasurement_size \<and>
   x_pos (x_pos_assign [3, 4] 9) = 9 \<and> y_pos (x_pos_assign [3, 4] 9) = 4 \<and>
   y_pos (y_pos_assign [3, 4] 9) = 9 \<and> x_pos (y_pos_assign [3, 4] 9) = 3"
  using PositionMeasurement_accessors [of "[3, 4]" 9]
  by (simp add: PositionMeasurement_size_def x_pos_def y_pos_def X_def Y_def)

end
